theory Spec2Isabelle
  imports Main
begin

section \<open>The rendered output\<close>

text \<open>
  The components of \<^verbatim>\<open>GameBoard\<close> return JSX. An element is modelled by the tree it
  renders to, with the attributes the source sets. A letter button has a \<open>colorScheme\<close>
  and a text child, a blank button has \<open>variant='outline'\<close> and neither of the two.
  An attribute the source leaves out, or sets to \<open>undefined\<close>, is \<open>None\<close>. The \<open>key\<close>
  attribute (the row or letter index) only guides reconciliation and is not displayed;
  it is left out, as are the two event handlers of the input field. The selector of the
  \<open>size\<close> attribute is \<open>size_attr\<close>.
\<close>

datatype element =
    Fragment
  | Button (size_attr: string) (colorScheme: "string option") (variant: "string option")
      (label: "string option")
  | HStack (spacing: string) (children: "element list")
  | VStack (padding: "nat option") (align: "string option") (children: "element list")
  | Text (fontSize: string) (content: string)
  | Input (size_attr: string) (val: string) (isDisabled: bool)

section \<open>The game state\<close>

text \<open>
  Modelled from the spec: the declarations of \<^verbatim>\<open>GameTypes\<close> (\<open>GameState\<close>, its team
  states and guesses) are not among the sources. The fields are the ones that
  \<^verbatim>\<open>constructBoards\<close> reads: \<open>teamOneState?\<close> and \<open>teamTwoState?\<close>, each with
  \<open>teamMembers\<close> (player identifiers) and \<open>guesses\<close>, a guess being a \<open>word\<close> and its
  \<open>guessResult\<close>, one number per letter. The numbers are the integer codes of the
  spec, hence \<open>int\<close>.
\<close>

record Guess =
  word :: string
  guessResult :: "int list"

record TeamState =
  teamMembers :: "string list"
  guesses :: "Guess list"

record GameState =
  teamOneState :: "TeamState option"
  teamTwoState :: "TeamState option"

section \<open>Letters and rows\<close>

text \<open>
  \<^verbatim>\<open>new Map([[0, 'gray'], [1, 'green'], [-1, 'yellow']])\<close> and its \<open>get\<close>. The key
  looked up is \<open>letterColors[index]\<close>, which is \<open>undefined\<close> beyond the end of the
  array, so the key is optional; \<open>undefined\<close> is not a key of the map.
\<close>

definition letterColorMatch :: "int \<rightharpoonup> string" where
  "letterColorMatch = map_of [(0, ''gray''), (1, ''green''), (- 1, ''yellow'')]"

definition Map_get :: "('k \<rightharpoonup> 'v) \<Rightarrow> 'k option \<Rightarrow> 'v option" where
  "Map_get m k = (case k of None \<Rightarrow> None | Some c \<Rightarrow> m c)"

definition WordleLetter :: "string \<Rightarrow> int option \<Rightarrow> element" where
  "WordleLetter letter color =
     Button ''sm'' (Map_get letterColorMatch color) None (Some letter)"

text \<open>Reading an array at an index: \<open>undefined\<close> out of range.\<close>

definition at_index :: "'a list \<Rightarrow> nat \<Rightarrow> 'a option" where
  "at_index xs i = (if i < length xs then Some (xs ! i) else None)"

text \<open>
  \<^verbatim>\<open>guessArray.map((guess, index) => <WordleLetter ... />)\<close>: the callback gets each entry
  with its index.
\<close>

fun map_index :: "('a \<Rightarrow> nat \<Rightarrow> 'b) \<Rightarrow> nat \<Rightarrow> 'a list \<Rightarrow> 'b list" where
  "map_index f i [] = []"
| "map_index f i (x # xs) = f x i # map_index f (Suc i) xs"

definition WordleRow :: "string list \<Rightarrow> int list \<Rightarrow> bool \<Rightarrow> element" where
  "WordleRow guessArray letterColors showLetters =
     HStack ''12px''
       (map_index (\<lambda>guess index.
          WordleLetter (if showLetters then guess else '''') (at_index letterColors index))
          0 guessArray)"

text \<open>The loop of \<^verbatim>\<open>BlankRow\<close>: five pushes of an outlined button without a child.\<close>

function BlankRow_loop :: "nat \<Rightarrow> element list \<Rightarrow> element list" where
  "BlankRow_loop i blankRows =
     (if i < 5 then BlankRow_loop (i + 1) (blankRows @ [Button ''sm'' None (Some ''outline'') None])
      else blankRows)"
  by pat_completeness auto
termination
  by (relation "measure (\<lambda>(i, blankRows). 5 - i)") auto

definition BlankRow :: element where
  "BlankRow = HStack ''12px'' (BlankRow_loop 0 [])"

text \<open>
  The loop of \<^verbatim>\<open>AllRows\<close>. It runs only when \<open>guessRows\<close> is truthy: an array is,
  also the empty one, and \<open>undefined\<close> is not.
\<close>

function AllRows_loop :: "element list \<Rightarrow> nat \<Rightarrow> element list \<Rightarrow> element list" where
  "AllRows_loop guessRows i allRows =
     (if i < 6
      then AllRows_loop guessRows (i + 1)
             (allRows @ [if length guessRows > i then guessRows ! i else BlankRow])
      else allRows)"
  by pat_completeness auto
termination
  by (relation "measure (\<lambda>(guessRows, i, allRows). 6 - i)") auto

definition AllRows :: "element list option \<Rightarrow> element" where
  "AllRows guessRows =
     VStack None None
       (case guessRows of None \<Rightarrow> [] | Some rows \<Rightarrow> AllRows_loop rows 0 [])"

section \<open>The boards\<close>

text \<open>
  \<^verbatim>\<open>Array.from(guess.word)\<close> splits the word into its letters, each a string of its
  own.
\<close>

definition Array_from :: "string \<Rightarrow> string list" where
  "Array_from w = map (\<lambda>c. [c]) w"

text \<open>
  \<^verbatim>\<open>state?.teamMembers.includes(playerID)\<close> is \<open>undefined\<close> for an absent team state, and
  \<open>!\<close> of \<open>undefined\<close> is \<open>true\<close>.
\<close>

definition includes_opt :: "TeamState option \<Rightarrow> string \<Rightarrow> bool option" where
  "includes_opt st p = map_option (\<lambda>t. p \<in> set (teamMembers t)) st"

fun js_not :: "bool option \<Rightarrow> bool" where
  "js_not None = True"
| "js_not (Some b) = (\<not> b)"

text \<open>
  The local constants of \<^verbatim>\<open>constructBoards\<close>, each a function of what it is computed
  from: the player identifier, the \<open>gameover\<close> property and the game state.
\<close>

definition redTeam :: "string \<Rightarrow> GameState \<Rightarrow> bool option" where
  "redTeam playerID gameState = includes_opt (teamOneState gameState) playerID"

definition blueTeam :: "string \<Rightarrow> GameState \<Rightarrow> bool option" where
  "blueTeam playerID gameState = includes_opt (teamTwoState gameState) playerID"

definition redGuesses :: "GameState \<Rightarrow> Guess list option" where
  "redGuesses gameState = map_option guesses (teamOneState gameState)"

definition blueGuesses :: "GameState \<Rightarrow> Guess list option" where
  "blueGuesses gameState = map_option guesses (teamTwoState gameState)"

definition yourTeamHeader :: "string \<Rightarrow> GameState \<Rightarrow> string" where
  "yourTeamHeader playerID gameState =
     (if js_not (redTeam playerID gameState) \<and> js_not (blueTeam playerID gameState)
      then ''You are Spectating!'' else ''You are on a team!'')"

definition displayText :: "string \<Rightarrow> bool \<Rightarrow> GameState \<Rightarrow> string" where
  "displayText playerID gameover gameState =
     (if gameover then ''Game Over'' else yourTeamHeader playerID gameState)"

definition redRows :: "string \<Rightarrow> bool \<Rightarrow> GameState \<Rightarrow> element list option" where
  "redRows playerID gameover gameState =
     map_option
       (map_index (\<lambda>guess index.
          WordleRow (Array_from (word guess)) (guessResult guess)
            (js_not (blueTeam playerID gameState) \<or> gameover)) 0)
       (redGuesses gameState)"

definition blueRows :: "string \<Rightarrow> bool \<Rightarrow> GameState \<Rightarrow> element list option" where
  "blueRows playerID gameover gameState =
     map_option
       (map_index (\<lambda>guess index.
          WordleRow (Array_from (word guess)) (guessResult guess)
            (js_not (redTeam playerID gameState) \<or> gameover)) 0)
       (blueGuesses gameState)"

definition redBoard :: "string \<Rightarrow> bool \<Rightarrow> GameState \<Rightarrow> element" where
  "redBoard playerID gameover gameState = AllRows (redRows playerID gameover gameState)"

definition blueBoard :: "string \<Rightarrow> bool \<Rightarrow> GameState \<Rightarrow> element" where
  "blueBoard playerID gameover gameState = AllRows (blueRows playerID gameover gameState)"

text \<open>
  \<^verbatim>\<open>constructBoards\<close> passes this element to \<open>setElement\<close>; \<open>input\<close> is the text typed so
  far, read from the component's state as the enclosing render saw it.
\<close>

definition constructBoards :: "string \<Rightarrow> bool \<Rightarrow> string \<Rightarrow> GameState \<Rightarrow> element" where
  "constructBoards playerID gameover input gameState =
     VStack (Some 4) (Some ''center'')
       [Text ''xl'' ''Wordle'',
        HStack ''24px''
          [VStack None None [Text ''sm'' ''Red Board'', redBoard playerID gameover gameState],
           VStack None None [Text ''sm'' ''Blue Board'', blueBoard playerID gameover gameState]],
        Text ''lg'' (displayText playerID gameover gameState),
        Input ''sm'' input
          (js_not (redTeam playerID gameState) \<and> js_not (blueTeam playerID gameState))]"

section \<open>The render loop\<close>

text \<open>
  The state of one mounted \<^verbatim>\<open>GameBoard\<close>: its three state hooks (\<open>playerID\<close> has no
  setter) and the calls of \<open>getGameState\<close> that have not completed yet. Each of these
  holds the \<open>constructBoards\<close> of the render that issued it, which closes over that
  render's \<open>gameover\<close> property and \<open>input\<close>. The last two fields are what the latest
  render was called with: its \<open>gameover\<close> property and whether
  \<open>currentConversationArea?.game\<close> was truthy. A render that a state setter causes
  runs the body with these again, since both change only with a render of their own.
\<close>

record closure =
  c_gameover :: bool
  c_input :: string

record GameBoard_state =
  playerID :: string
  input :: string
  element :: element
  pending :: "closure list"
  props_gameover :: bool
  area_game :: bool

text \<open>
  What can happen to the component. \<open>Render gameover game\<close> is a render from outside
  (the parent renders, or the conversation area changes): one call of \<^verbatim>\<open>GameBoard\<close>, with
  its property and whether \<open>currentConversationArea?.game\<close> is truthy. \<open>Resolve i gameState\<close>
  and \<open>Reject i\<close> complete the \<open>i\<close>-th pending fetch (responses may arrive in any
  order); \<open>Change v\<close> is the \<open>onChange\<close> handler of the input field, called with the
  new text.
\<close>

datatype event =
    Render bool bool
  | Resolve nat GameState
  | Reject nat
  | Change string

text \<open>
  The body of \<^verbatim>\<open>GameBoard\<close>: with an active game it calls \<open>getGameState\<close>, and it returns
  the \<open>element\<close> of the state it was called in.
\<close>

definition GameBoard :: "GameBoard_state \<Rightarrow> bool \<Rightarrow> bool \<Rightarrow> GameBoard_state \<times> element" where
  "GameBoard s gameover game =
     ((if game
       then s\<lparr>pending := pending s @ [\<lparr>c_gameover = gameover, c_input = input s\<rparr>]\<rparr>
       else s),
      element s)"

text \<open>
  Mounting is the first render: the hooks take their initial values and the body runs
  once.
\<close>

definition mount :: "string \<Rightarrow> bool \<Rightarrow> bool \<Rightarrow> GameBoard_state" where
  "mount myPlayerID gameover game =
     fst (GameBoard
            \<lparr>playerID = myPlayerID, input = [], element = Fragment, pending = [],
             props_gameover = gameover, area_game = game\<rparr>
            gameover game)"

text \<open>
  \<open>setElement\<close> and \<open>setInput\<close> store the new value and make React render the component
  again: the body runs once more, with the property and the conversation area of the
  latest render, and with an active game it fetches again.
\<close>

definition rerender :: "GameBoard_state \<Rightarrow> GameBoard_state" where
  "rerender s = fst (GameBoard s (props_gameover s) (area_game s))"

definition remove_at :: "nat \<Rightarrow> 'a list \<Rightarrow> 'a list" where
  "remove_at i xs = take i xs @ drop (Suc i) xs"

text \<open>
  An event that cannot happen gives \<open>None\<close>: the completion of a fetch that is not
  pending. A fulfilled fetch runs the \<open>then\<close> callback of the render that issued it, which
  calls \<open>constructBoards\<close> and so \<open>setElement\<close>, always with a new element. A rejected
  fetch runs no callback and sets no state. A \<open>Change\<close> to the text that \<open>input\<close>
  already holds is left out as well: whether React runs the body then is up to its
  scheduler.
\<close>

fun step :: "GameBoard_state \<Rightarrow> event \<Rightarrow> GameBoard_state option" where
  "step s (Render gameover game) =
     Some ((fst (GameBoard s gameover game))\<lparr>props_gameover := gameover, area_game := game\<rparr>)"
| "step s (Resolve i gameState) =
     (if i < length (pending s)
      then Some (rerender
                   (s\<lparr>element :=
                        constructBoards (playerID s) (c_gameover (pending s ! i))
                          (c_input (pending s ! i)) gameState,
                      pending := remove_at i (pending s)\<rparr>))
      else None)"
| "step s (Reject i) =
     (if i < length (pending s) then Some (s\<lparr>pending := remove_at i (pending s)\<rparr>) else None)"
| "step s (Change v) =
     (if v = input s then None else Some (rerender (s\<lparr>input := v\<rparr>)))"

fun run :: "GameBoard_state \<Rightarrow> event list \<Rightarrow> GameBoard_state option" where
  "run s [] = Some s"
| "run s (e # es) = (case step s e of None \<Rightarrow> None | Some s' \<Rightarrow> run s' es)"

text \<open>The number of state fetches in flight.\<close>

definition in_flight :: "GameBoard_state \<Rightarrow> nat" where
  "in_flight s = length (pending s)"

section \<open>The transport client\<close>

text \<open>
  A value of a response body. Numbers are integers here; of a number only whether it
  is zero is ever looked at.
\<close>

datatype jsval =
    JUndefined
  | JNull
  | JBool bool
  | JNum int
  | JStr string
  | JObj "(string \<times> jsval) list"
  | JArr "jsval list"

fun truthy :: "jsval \<Rightarrow> bool" where
  "truthy JUndefined = False"
| "truthy JNull = False"
| "truthy (JBool b) = b"
| "truthy (JNum n) = (n \<noteq> 0)"
| "truthy (JStr s) = (s \<noteq> [])"
| "truthy (JObj props) = True"
| "truthy (JArr items) = True"

datatype js_error = Error (msg: string) | AssertionError

text \<open>
  \<^verbatim>\<open>ResponseEnvelope<T>\<close>; a field that is left out is \<open>undefined\<close>. Of an
  \<open>AxiosResponse\<close> only \<open>data\<close> is read.
\<close>

record ResponseEnvelope =
  isOK :: bool
  message :: "string option"
  response :: jsval

record AxiosResponse =
  data :: ResponseEnvelope

text \<open>A string in a template literal; \<open>undefined\<close> prints as its name.\<close>

fun template :: "string option \<Rightarrow> string" where
  "template None = ''undefined''"
| "template (Some s) = s"

definition unwrapOrThrowError :: "AxiosResponse \<Rightarrow> bool \<Rightarrow> js_error + jsval" where
  "unwrapOrThrowError resp ignoreResponse =
     (if isOK (data resp)
      then (if ignoreResponse then Inr (JObj [])
            else if truthy (response (data resp)) then Inr (response (data resp))
            else Inl AssertionError)
      else Inl (Error (''Error processing request: '' @ template (message (data resp)))))"

text \<open>
  The requests of the game operations. \<open>GameType\<close> and \<open>GameAction\<close> are declared in
  \<^verbatim>\<open>GameTypes\<close>, which is not among the sources: they are type parameters.
\<close>

record GameLeaveTeamRequest =
  coveyTownID :: string
  sessionToken :: string
  playerID :: string
  conversationAreaLabel :: string

record GetGameStateRequest =
  coveyTownID :: string
  sessionToken :: string
  conversationAreaLabel :: string

record 'gameType CreateGameRequest =
  coveyTownID :: string
  sessionToken :: string
  conversationAreaLabel :: string
  gameID :: 'gameType

record 'gameAction UpdateGameRequest =
  coveyTownID :: string
  sessionToken :: string
  conversationAreaLabel :: string
  gameAction :: 'gameAction

record GameJoinTeamRequest =
  coveyTownID :: string
  sessionToken :: string
  playerID :: string
  teamNumber :: int
  conversationAreaLabel :: string

record StartGameRequest =
  coveyTownID :: string
  sessionToken :: string
  conversationAreaLabel :: string

text \<open>
  \<^verbatim>\<open>await\<close> of a request: a rejected promise is thrown on, a fulfilled one gives the
  response wrapper. The \<open>post\<close> of the axios instance is a parameter of each operation:
  from the address and the request to how the promise settles.
\<close>

definition await :: "js_error + 'a \<Rightarrow> ('a \<Rightarrow> js_error + 'b) \<Rightarrow> js_error + 'b" where
  "await p k = (case p of Inl e \<Rightarrow> Inl e | Inr x \<Rightarrow> k x)"

definition createGame ::
  "(string \<Rightarrow> 'g CreateGameRequest \<Rightarrow> js_error + AxiosResponse) \<Rightarrow> 'g CreateGameRequest
    \<Rightarrow> js_error + jsval" where
  "createGame post requestData =
     await (post (''/towns/'' @ CreateGameRequest.coveyTownID requestData @ ''/games'') requestData)
       (\<lambda>responseWrapper. unwrapOrThrowError responseWrapper False)"

definition addPlayerToGameTeam ::
  "(string \<Rightarrow> GameJoinTeamRequest \<Rightarrow> js_error + AxiosResponse) \<Rightarrow> GameJoinTeamRequest
    \<Rightarrow> js_error + jsval" where
  "addPlayerToGameTeam post requestData =
     await (post (''/towns/'' @ GameJoinTeamRequest.coveyTownID requestData @ ''/joingameteam'')
              requestData)
       (\<lambda>responseWrapper. unwrapOrThrowError responseWrapper False)"

definition removePlayerFromGameTeam ::
  "(string \<Rightarrow> GameLeaveTeamRequest \<Rightarrow> js_error + AxiosResponse) \<Rightarrow> GameLeaveTeamRequest
    \<Rightarrow> js_error + jsval" where
  "removePlayerFromGameTeam post requestData =
     await (post (''/towns/'' @ GameLeaveTeamRequest.coveyTownID requestData
                    @ ''/removeplayerfromteam'') requestData)
       (\<lambda>responseWrapper. unwrapOrThrowError responseWrapper False)"

definition getGameState ::
  "(string \<Rightarrow> GetGameStateRequest \<Rightarrow> js_error + AxiosResponse) \<Rightarrow> GetGameStateRequest
    \<Rightarrow> js_error + jsval" where
  "getGameState post requestData =
     await (post (''/towns/'' @ GetGameStateRequest.coveyTownID requestData @ ''/gamestate'')
              requestData)
       (\<lambda>responseWrapper. unwrapOrThrowError responseWrapper False)"

definition startGame ::
  "(string \<Rightarrow> StartGameRequest \<Rightarrow> js_error + AxiosResponse) \<Rightarrow> StartGameRequest
    \<Rightarrow> js_error + jsval" where
  "startGame post requestData =
     await (post (''/towns/'' @ StartGameRequest.coveyTownID requestData @ ''/startGame'')
              requestData)
       (\<lambda>responseWrapper. unwrapOrThrowError responseWrapper False)"

definition inputGameAction ::
  "(string \<Rightarrow> 'a UpdateGameRequest \<Rightarrow> js_error + AxiosResponse) \<Rightarrow> 'a UpdateGameRequest
    \<Rightarrow> js_error + jsval" where
  "inputGameAction post requestData =
     await (post (''/towns/'' @ UpdateGameRequest.coveyTownID requestData @ ''/updategame'')
              requestData)
       (\<lambda>responseWrapper. unwrapOrThrowError responseWrapper False)"

section \<open>Example states\<close>

text \<open>
  The scenario of the specification: team one has guessed twice, team two not yet;
  \<open>alice\<close> plays for team one, \<open>bob\<close> for team two, anybody else watches.
\<close>

definition crane :: Guess where
  "crane = \<lparr>word = ''CRANE'', guessResult = [0, 1, - 1, 0, 0]\<rparr>"

definition saute :: Guess where
  "saute = \<lparr>word = ''SAUTE'', guessResult = [1, 1, 1, 1, 1]\<rparr>"

definition scenario :: GameState where
  "scenario =
     \<lparr>teamOneState = Some \<lparr>teamMembers = [''alice''], guesses = [crane, saute]\<rparr>,
      teamTwoState = Some \<lparr>teamMembers = [''bob''], guesses = []\<rparr>\<rparr>"

definition no_teams :: GameState where
  "no_teams = \<lparr>teamOneState = None, teamTwoState = None\<rparr>"

definition seven_guesses :: GameState where
  "seven_guesses =
     \<lparr>teamOneState =
        Some \<lparr>teamMembers = [''alice''],
              guesses = [crane, crane, crane, crane, crane, crane, saute]\<rparr>,
      teamTwoState = None\<rparr>"

definition six_guesses :: GameState where
  "six_guesses =
     \<lparr>teamOneState =
        Some \<lparr>teamMembers = [''alice''],
              guesses = [crane, crane, crane, crane, crane, crane]\<rparr>,
      teamTwoState = None\<rparr>"

text \<open>
  Two states of the component with fetches under way and an active game: in the
  second, the player has typed since, a first answer has been displayed, and the two
  pending fetches were issued by renders with different properties.
\<close>

definition one_pending :: GameBoard_state where
  "one_pending =
     \<lparr>GameBoard_state.playerID = ''bob'', input = [], element = Fragment,
      pending = [\<lparr>c_gameover = False, c_input = []\<rparr>],
      props_gameover = False, area_game = True\<rparr>"

definition two_pending :: GameBoard_state where
  "two_pending =
     \<lparr>GameBoard_state.playerID = ''bob'', input = ''CR'',
      element = constructBoards ''bob'' False [] no_teams,
      pending = [\<lparr>c_gameover = True, c_input = []\<rparr>, \<lparr>c_gameover = False, c_input = ''CR''\<rparr>],
      props_gameover = False, area_game = True\<rparr>"

section \<open>Facts about the loops and the rows\<close>

declare BlankRow_loop.simps [simp del] AllRows_loop.simps [simp del]

lemma BlankRow_loop_eq:
  "BlankRow_loop i acc = acc @ replicate (5 - i) (Button ''sm'' None (Some ''outline'') None)"
proof (induction i acc rule: BlankRow_loop.induct)
  case (1 i blankRows)
  show ?case
  proof (cases "i < 5")
    case True
    then have "5 - i = Suc (5 - (i + 1))" by simp
    then have "replicate (5 - i) b = b # replicate (5 - (i + 1)) b" for b :: element
      by simp
    with True 1 show ?thesis
      by (subst BlankRow_loop.simps) simp
  next
    case False
    then show ?thesis by (subst BlankRow_loop.simps) simp
  qed
qed

lemma BlankRow_eq:
  "BlankRow = HStack ''12px'' (replicate 5 (Button ''sm'' None (Some ''outline'') None))"
  by (simp add: BlankRow_def BlankRow_loop_eq)

lemma AllRows_loop_eq:
  "AllRows_loop rows i acc =
     acc @ map (\<lambda>k. if k < length rows then rows ! k else BlankRow) [i..<6]"
proof (induction rows i acc rule: AllRows_loop.induct)
  case (1 guessRows i allRows)
  show ?case
  proof (cases "i < 6")
    case True
    then have "[i..<6] = i # [i + 1..<6]" by (simp add: upt_conv_Cons)
    with True 1 show ?thesis
      by (subst AllRows_loop.simps) simp
  next
    case False
    then show ?thesis by (subst AllRows_loop.simps) simp
  qed
qed

lemma AllRows_loop_take:
  "AllRows_loop rows 0 [] = take 6 rows @ replicate (6 - length rows) BlankRow"
proof (rule nth_equalityI)
  show "length (AllRows_loop rows 0 []) = length (take 6 rows @ replicate (6 - length rows) BlankRow)"
    by (simp add: AllRows_loop_eq)
next
  fix k assume "k < length (AllRows_loop rows 0 [])"
  then have k: "k < 6" by (simp add: AllRows_loop_eq)
  then show "AllRows_loop rows 0 [] ! k = (take 6 rows @ replicate (6 - length rows) BlankRow) ! k"
    by (simp add: AllRows_loop_eq nth_append del: upt_Suc)
qed

lemma map_index_const: "map_index (\<lambda>x k. g x) i xs = map g xs"
  by (induction xs arbitrary: i) simp_all


lemma children_WordleRow:
  "children (WordleRow ga lc b) =
     map_index (\<lambda>guess index. WordleLetter (if b then guess else []) (at_index lc index)) 0 ga"
  by (simp add: WordleRow_def)

lemma map_label_map_index:
  "map label (map_index (\<lambda>guess index. WordleLetter (f guess) (c index)) i ga) =
     map (\<lambda>guess. Some (f guess)) ga"
  by (induction ga arbitrary: i) (simp_all add: WordleLetter_def)

lemma map_colorScheme_map_index:
  "map colorScheme (map_index (\<lambda>guess index. WordleLetter (f guess) (c index)) i ga) =
     map (\<lambda>index. Map_get letterColorMatch (c index)) [i..<i + length ga]"
proof (induction ga arbitrary: i)
  case Nil
  then show ?case by simp
next
  case (Cons g ga)
  have "[i..<i + length (g # ga)] = i # [Suc i..<Suc i + length ga]"
    using upt_conv_Cons [of i "i + length (g # ga)"] by simp
  with Cons show ?case by (simp add: WordleLetter_def)
qed

lemma labels_WordleRow:
  "map label (children (WordleRow ga lc b)) = map (\<lambda>l. Some (if b then l else [])) ga"
  by (simp add: children_WordleRow map_label_map_index)

lemma colors_WordleRow:
  "map colorScheme (children (WordleRow ga lc b)) =
     map (\<lambda>j. Map_get letterColorMatch (at_index lc j)) [0..<length ga]"
  using map_colorScheme_map_index [of "\<lambda>guess. if b then guess else []" "at_index lc" 0 ga]
  by (simp add: children_WordleRow)

lemma js_not_includes_opt:
  "js_not (includes_opt st p) = (\<not> (\<exists>t. st = Some t \<and> p \<in> set (teamMembers t)))"
  by (cases st) (simp_all add: includes_opt_def)

lemma children_AllRows_Some:
  "children (AllRows (Some rows)) = take 6 rows @ replicate (6 - length rows) BlankRow"
  by (simp add: AllRows_def AllRows_loop_take)

lemma children_redBoard:
  "teamOneState gs = Some t \<Longrightarrow>
   children (redBoard p go gs) =
     map (\<lambda>g. WordleRow (Array_from (word g)) (guessResult g) (js_not (blueTeam p gs) \<or> go))
       (take 6 (guesses t))
     @ replicate (6 - length (guesses t)) BlankRow"
  by (simp add: redBoard_def redRows_def redGuesses_def children_AllRows_Some
      map_index_const take_map)

lemma children_blueBoard:
  "teamTwoState gs = Some t \<Longrightarrow>
   children (blueBoard p go gs) =
     map (\<lambda>g. WordleRow (Array_from (word g)) (guessResult g) (js_not (redTeam p gs) \<or> go))
       (take 6 (guesses t))
     @ replicate (6 - length (guesses t)) BlankRow"
  by (simp add: blueBoard_def blueRows_def blueGuesses_def children_AllRows_Some
      map_index_const take_map)

lemma children_redBoard_None: "teamOneState gs = None \<Longrightarrow> children (redBoard p go gs) = []"
  by (simp add: redBoard_def redRows_def redGuesses_def AllRows_def)

lemma children_blueBoard_None: "teamTwoState gs = None \<Longrightarrow> children (blueBoard p go gs) = []"
  by (simp add: blueBoard_def blueRows_def blueGuesses_def AllRows_def)

lemma nth_board_rows:
  "i < 6 \<Longrightarrow>
   (map f (take 6 gs) @ replicate (6 - length gs) b) ! i =
     (if i < length gs then f (gs ! i) else b)"
  by (simp add: nth_append)

lemma length_Array_from: "length (Array_from w) = length w"
  by (simp add: Array_from_def)

lemma nth_redBoard:
  "teamOneState gs = Some t \<Longrightarrow> i < 6 \<Longrightarrow>
   children (redBoard p go gs) ! i =
     (if i < length (guesses t)
      then WordleRow (Array_from (word (guesses t ! i))) (guessResult (guesses t ! i))
             (\<not> (\<exists>u. teamTwoState gs = Some u \<and> p \<in> set (teamMembers u)) \<or> go)
      else BlankRow)"
  by (simp add: children_redBoard nth_board_rows blueTeam_def js_not_includes_opt)

lemma nth_blueBoard:
  "teamTwoState gs = Some t \<Longrightarrow> i < 6 \<Longrightarrow>
   children (blueBoard p go gs) ! i =
     (if i < length (guesses t)
      then WordleRow (Array_from (word (guesses t ! i))) (guessResult (guesses t ! i))
             (\<not> (\<exists>u. teamOneState gs = Some u \<and> p \<in> set (teamMembers u)) \<or> go)
      else BlankRow)"
  by (simp add: children_blueBoard nth_board_rows redTeam_def js_not_includes_opt)

lemma length_remove_at: "i < length xs \<Longrightarrow> Suc (length (remove_at i xs)) = length xs"
  by (simp add: remove_at_def)

lemma run_renders:
  "\<exists>s'. run s (replicate n (Render go True)) = Some s' \<and> in_flight s' = in_flight s + n"
proof (induction n arbitrary: s)
  case 0
  show ?case by simp
next
  case (Suc n)
  from Suc [of "(fst (GameBoard s go True))\<lparr>props_gameover := go, area_game := True\<rparr>"]
  show ?case
    by (auto simp add: GameBoard_def in_flight_def)
qed

lemma in_flight_rerender:
  "in_flight (rerender s) = in_flight s + (if area_game s then 1 else 0)"
  by (simp add: rerender_def GameBoard_def in_flight_def)

lemma element_rerender: "element (rerender s) = element s"
  by (simp add: rerender_def GameBoard_def)

section \<open>Who sees the letters\<close>

text \<open>
  C1. Take a row \<open>i\<close> of a team's board that holds a guess. Its cells show the letters of
  the guess exactly when the observing player \<open>p\<close> is not a member of the opposing team
  (an absent opposing team has no members) or \<open>gameover\<close> is set; otherwise every cell
  shows the empty string. For a guess of at least one letter this is an equivalence. The
  colour schemes of the cells are those of the guess result, whoever looks and whether or
  not the game is over. Both hold for the red board against team two and for the blue
  board against team one.
\<close>

theorem letters_shown_iff_not_opponent:
  assumes "i < 6"
  shows
    "(\<forall>t. teamOneState gs = Some t \<and> i < length (guesses t) \<longrightarrow>
        (let g = guesses t ! i;
             cells = children (children (redBoard p go gs) ! i);
             shown = (\<not> (\<exists>u. teamTwoState gs = Some u \<and> p \<in> set (teamMembers u)) \<or> go)
         in map label cells = map (\<lambda>l. Some (if shown then l else [])) (Array_from (word g))
            \<and> (word g \<noteq> [] \<longrightarrow> (map label cells = map Some (Array_from (word g))) = shown)
            \<and> map colorScheme cells =
                map (\<lambda>j. Map_get letterColorMatch (at_index (guessResult g) j))
                  [0..<length (word g)]))
     \<and> (\<forall>t. teamTwoState gs = Some t \<and> i < length (guesses t) \<longrightarrow>
        (let g = guesses t ! i;
             cells = children (children (blueBoard p go gs) ! i);
             shown = (\<not> (\<exists>u. teamOneState gs = Some u \<and> p \<in> set (teamMembers u)) \<or> go)
         in map label cells = map (\<lambda>l. Some (if shown then l else [])) (Array_from (word g))
            \<and> (word g \<noteq> [] \<longrightarrow> (map label cells = map Some (Array_from (word g))) = shown)
            \<and> map colorScheme cells =
                map (\<lambda>j. Map_get letterColorMatch (at_index (guessResult g) j))
                  [0..<length (word g)]))"
  using assms
  by (auto simp add: Let_def nth_redBoard nth_blueBoard labels_WordleRow colors_WordleRow
      length_Array_from Array_from_def)

theorem letters_shown_iff_not_opponent_witness:
  "map label (children (children (redBoard ''bob'' False scenario) ! 0)) = replicate 5 (Some [])
   \<and> map label (children (children (redBoard ''bob'' True scenario) ! 0)) =
       [Some ''C'', Some ''R'', Some ''A'', Some ''N'', Some ''E'']
   \<and> map label (children (children (redBoard ''carol'' False scenario) ! 0)) =
       [Some ''C'', Some ''R'', Some ''A'', Some ''N'', Some ''E'']
   \<and> map colorScheme (children (children (redBoard ''bob'' False scenario) ! 0)) =
       [Some ''gray'', Some ''green'', Some ''yellow'', Some ''gray'', Some ''gray'']"
  using letters_shown_iff_not_opponent [of 0 scenario "''bob''" False]
    letters_shown_iff_not_opponent [of 0 scenario "''bob''" True]
    letters_shown_iff_not_opponent [of 0 scenario "''carol''" False]
  by (simp add: scenario_def crane_def saute_def Array_from_def Map_get_def letterColorMatch_def
      at_index_def Let_def upt_conv_Cons numeral_eq_Suc)

section \<open>The six rows of a board\<close>

text \<open>
  C2, as the specification states it, asks for six rows also when the team state is
  absent. \<^verbatim>\<open>AllRows\<close> fills its rows only under \<open>if (guessRows)\<close>, and for an absent team
  state \<open>guessRows\<close> is \<open>undefined\<close>: the board then has no row at all.
\<close>

theorem absent_team_has_no_rows:
  "children (redBoard ''bob'' False no_teams) = []
   \<and> length (children (redBoard ''bob'' False no_teams)) \<noteq> 6"
  by (simp add: children_redBoard_None children_blueBoard_None no_teams_def)

text \<open>
  C2, amended. The board of a team whose state is present has exactly six rows, however
  many guesses the team has: row \<open>i\<close> renders the guess at index \<open>i\<close> if there is one and
  is a blank row otherwise, a blank row being five outlined buttons without a colour
  scheme and without a letter. The board of a team whose state is absent has no rows.
\<close>

theorem six_rows_when_team_present:
  "(\<forall>t. teamOneState gs = Some t \<longrightarrow>
      length (children (redBoard p go gs)) = 6
      \<and> (\<forall>i<6. children (redBoard p go gs) ! i =
            (if i < length (guesses t)
             then WordleRow (Array_from (word (guesses t ! i))) (guessResult (guesses t ! i))
                    (\<not> (\<exists>u. teamTwoState gs = Some u \<and> p \<in> set (teamMembers u)) \<or> go)
             else BlankRow)))
   \<and> (\<forall>t. teamTwoState gs = Some t \<longrightarrow>
      length (children (blueBoard p go gs)) = 6
      \<and> (\<forall>i<6. children (blueBoard p go gs) ! i =
            (if i < length (guesses t)
             then WordleRow (Array_from (word (guesses t ! i))) (guessResult (guesses t ! i))
                    (\<not> (\<exists>u. teamOneState gs = Some u \<and> p \<in> set (teamMembers u)) \<or> go)
             else BlankRow)))
   \<and> (teamOneState gs = None \<longrightarrow> children (redBoard p go gs) = [])
   \<and> (teamTwoState gs = None \<longrightarrow> children (blueBoard p go gs) = [])
   \<and> BlankRow = HStack ''12px'' (replicate 5 (Button ''sm'' None (Some ''outline'') None))"
proof (intro conjI allI impI)
  fix t assume "teamOneState gs = Some t"
  then show "length (children (redBoard p go gs)) = 6"
    by (simp add: children_redBoard)
next
  fix t i assume "teamOneState gs = Some t" "i < (6::nat)"
  then show "children (redBoard p go gs) ! i =
      (if i < length (guesses t)
       then WordleRow (Array_from (word (guesses t ! i))) (guessResult (guesses t ! i))
              (\<not> (\<exists>u. teamTwoState gs = Some u \<and> p \<in> set (teamMembers u)) \<or> go)
       else BlankRow)"
    by (rule nth_redBoard)
next
  fix t assume "teamTwoState gs = Some t"
  then show "length (children (blueBoard p go gs)) = 6"
    by (simp add: children_blueBoard)
next
  fix t i assume "teamTwoState gs = Some t" "i < (6::nat)"
  then show "children (blueBoard p go gs) ! i =
      (if i < length (guesses t)
       then WordleRow (Array_from (word (guesses t ! i))) (guessResult (guesses t ! i))
              (\<not> (\<exists>u. teamOneState gs = Some u \<and> p \<in> set (teamMembers u)) \<or> go)
       else BlankRow)"
    by (rule nth_blueBoard)
next
  assume "teamOneState gs = None"
  then show "children (redBoard p go gs) = []" by (rule children_redBoard_None)
next
  assume "teamTwoState gs = None"
  then show "children (blueBoard p go gs) = []" by (rule children_blueBoard_None)
next
  show "BlankRow = HStack ''12px'' (replicate 5 (Button ''sm'' None (Some ''outline'') None))"
    by (rule BlankRow_eq)
qed

theorem six_rows_when_team_present_witness:
  "length (children (redBoard ''bob'' False scenario)) = 6
   \<and> children (redBoard ''bob'' False scenario) ! 1 =
       WordleRow (Array_from ''SAUTE'') [1, 1, 1, 1, 1] False
   \<and> children (redBoard ''bob'' False scenario) ! 2 = BlankRow
   \<and> children (blueBoard ''bob'' False scenario) = replicate 6 BlankRow
   \<and> children (redBoard ''bob'' False no_teams) = []"
proof -
  note s = six_rows_when_team_present [of scenario "''bob''" False]
  note n = six_rows_when_team_present [of no_teams "''bob''" False]
  have rows: "children (blueBoard ''bob'' False scenario) = replicate 6 BlankRow"
  proof (rule nth_equalityI)
    show "length (children (blueBoard ''bob'' False scenario)) = length (replicate 6 BlankRow)"
      using s by (simp add: scenario_def)
    fix i assume "i < length (children (blueBoard ''bob'' False scenario))"
    with s have "i < 6" by (simp add: scenario_def)
    with s show "children (blueBoard ''bob'' False scenario) ! i = replicate 6 BlankRow ! i"
      by (simp add: scenario_def)
  qed
  from s n rows show ?thesis
    by (simp add: scenario_def no_teams_def crane_def saute_def)
qed

section \<open>The order of the rows\<close>

text \<open>
  C6, as the specification states it, asks for a loud failure when a team has more than
  six guesses. The loop of \<^verbatim>\<open>AllRows\<close> stops at index 5 and nothing on the way raises:
  with seven guesses the board is the one of the first six.
\<close>

theorem seventh_guess_dropped:
  "redBoard ''alice'' False seven_guesses = redBoard ''alice'' False six_guesses
   \<and> length (children (redBoard ''alice'' False seven_guesses)) = 6"
proof -
  have "children (redBoard ''alice'' False seven_guesses) =
        children (redBoard ''alice'' False six_guesses)"
    by (simp add: children_redBoard seven_guesses_def six_guesses_def blueTeam_def)
  then have "redBoard ''alice'' False seven_guesses = redBoard ''alice'' False six_guesses"
    by (simp add: redBoard_def AllRows_def)
  moreover have "length (children (redBoard ''alice'' False seven_guesses)) = 6"
    by (simp add: children_redBoard seven_guesses_def)
  ultimately show ?thesis by (rule conjI)
qed

text \<open>
  C6, amended. The rows of a board follow the order of the team's guesses, oldest first:
  they are the renderings of the first six guesses, in that order, followed by blank
  rows up to six. Guesses beyond the sixth are not rendered, and the derivation does
  not fail.
\<close>

theorem rows_in_submission_order:
  "(\<forall>t. teamOneState gs = Some t \<longrightarrow>
      children (redBoard p go gs) =
        map (\<lambda>g. WordleRow (Array_from (word g)) (guessResult g)
                   (\<not> (\<exists>u. teamTwoState gs = Some u \<and> p \<in> set (teamMembers u)) \<or> go))
          (take 6 (guesses t))
        @ replicate (6 - length (guesses t)) BlankRow)
   \<and> (\<forall>t. teamTwoState gs = Some t \<longrightarrow>
      children (blueBoard p go gs) =
        map (\<lambda>g. WordleRow (Array_from (word g)) (guessResult g)
                   (\<not> (\<exists>u. teamOneState gs = Some u \<and> p \<in> set (teamMembers u)) \<or> go))
          (take 6 (guesses t))
        @ replicate (6 - length (guesses t)) BlankRow)"
  by (simp add: children_redBoard children_blueBoard redTeam_def blueTeam_def js_not_includes_opt)

theorem rows_in_submission_order_witness:
  "children (redBoard ''alice'' False seven_guesses) =
     replicate 6 (WordleRow (Array_from ''CRANE'') [0, 1, - 1, 0, 0] True)
   \<and> children (redBoard ''bob'' False scenario) =
       [WordleRow (Array_from ''CRANE'') [0, 1, - 1, 0, 0] False,
        WordleRow (Array_from ''SAUTE'') [1, 1, 1, 1, 1] False,
        BlankRow, BlankRow, BlankRow, BlankRow]"
  using rows_in_submission_order [of seven_guesses "''alice''" False]
    rows_in_submission_order [of scenario "''bob''" False]
  by (simp add: seven_guesses_def scenario_def crane_def saute_def numeral_eq_Suc)

section \<open>The colour of a letter\<close>

text \<open>
  C4. On the codes \<open>-1\<close>, \<open>0\<close> and \<open>1\<close> the colour lookup is defined and gives one fixed
  colour scheme each: \<open>yellow\<close> (the letter is elsewhere in the word, the displaced
  match) for \<open>-1\<close>, \<open>gray\<close> (the letter is absent) for \<open>0\<close> and \<open>green\<close> (the exact match)
  for \<open>1\<close>. A cell with such a code is rendered with exactly that colour scheme.
\<close>

theorem color_of_cell:
  "c \<in> {- 1, 0, 1} \<Longrightarrow>
   letterColorMatch c = Some (if c = - 1 then ''yellow'' else if c = 0 then ''gray'' else ''green'')
   \<and> WordleLetter l (Some c) =
       Button ''sm'' (Some (if c = - 1 then ''yellow'' else if c = 0 then ''gray'' else ''green''))
         None (Some l)"
  by (auto simp add: WordleLetter_def Map_get_def letterColorMatch_def)

theorem color_of_cell_witness:
  "colorScheme (WordleLetter ''A'' (Some (- 1))) = Some ''yellow''
   \<and> colorScheme (WordleLetter ''A'' (Some 0)) = Some ''gray''
   \<and> colorScheme (WordleLetter ''A'' (Some 1)) = Some ''green''"
  using color_of_cell [of "- 1" "''A''"] color_of_cell [of 0 "''A''"] color_of_cell [of 1 "''A''"]
  by simp

text \<open>
  C5, as the specification states it, asks that a code outside \<open>{-1, 0, 1}\<close> raises.
  The lookup is \<open>Map.get\<close>, which gives \<open>undefined\<close> for a key it does not hold: for the
  code \<open>2\<close> the cell is a button without a colour scheme, and nothing is raised.
\<close>

theorem color_two_is_undefined:
  "letterColorMatch 2 = None
   \<and> WordleLetter ''A'' (Some 2) = Button ''sm'' None None (Some ''A'')"
  by (simp add: WordleLetter_def Map_get_def letterColorMatch_def)

text \<open>
  C5, amended. For every colour code outside \<open>{-1, 0, 1}\<close> the lookup gives
  \<open>undefined\<close>, and the cell is rendered as a button with its letter and no colour
  scheme. No error is raised.
\<close>

theorem color_outside_domain:
  "c \<notin> {- 1, 0, 1} \<Longrightarrow>
   letterColorMatch c = None \<and> WordleLetter l (Some c) = Button ''sm'' None None (Some l)"
  by (simp add: WordleLetter_def Map_get_def letterColorMatch_def)

theorem color_outside_domain_witness:
  "(7::int) \<notin> {- 1, 0, 1} \<and> colorScheme (WordleLetter ''Q'' (Some 7)) = None"
  using color_outside_domain [of 7 "''Q''"] by simp

section \<open>The input field\<close>

text \<open>
  C10. The last child of the view that \<^verbatim>\<open>constructBoards\<close> builds is the input field. It
  is disabled exactly when the observing player is a member of neither team (an absent
  team has no members). The \<open>gameover\<close> property \<open>go\<close> does not occur in the condition,
  and the game state holds nothing about turns: for a member of a team the field is
  enabled whatever they are.
\<close>

theorem input_disabled_iff_spectator:
  "children (constructBoards p go inp gs) ! 3 =
     Input ''sm'' inp
       (\<not> (\<exists>t. teamOneState gs = Some t \<and> p \<in> set (teamMembers t))
        \<and> \<not> (\<exists>t. teamTwoState gs = Some t \<and> p \<in> set (teamMembers t)))
   \<and> isDisabled (children (constructBoards p go inp gs) ! 3) =
       (\<not> (\<exists>t. teamOneState gs = Some t \<and> p \<in> set (teamMembers t))
        \<and> \<not> (\<exists>t. teamTwoState gs = Some t \<and> p \<in> set (teamMembers t)))"
  by (simp add: constructBoards_def redTeam_def blueTeam_def js_not_includes_opt)

theorem input_disabled_iff_spectator_witness:
  "isDisabled (children (constructBoards ''carol'' False [] scenario) ! 3)
   \<and> \<not> isDisabled (children (constructBoards ''alice'' True [] scenario) ! 3)
   \<and> \<not> isDisabled (children (constructBoards ''bob'' False [] scenario) ! 3)"
  using input_disabled_iff_spectator [of "''carol''" False "[]" scenario]
    input_disabled_iff_spectator [of "''alice''" True "[]" scenario]
    input_disabled_iff_spectator [of "''bob''" False "[]" scenario]
  by (simp add: scenario_def)

section \<open>Unwrapping an envelope\<close>

text \<open>
  C3, as the specification states it, has the error that is raised for a failure
  envelope carry the message field of the envelope as its message. The source builds
  the message from a template: for \<open>{isOK: false, message: "m"}\<close> the error's message is
  \<open>Error processing request: m\<close>, not \<open>m\<close>.
\<close>

theorem error_message_has_prefix:
  "unwrapOrThrowError \<lparr>data = \<lparr>isOK = False, message = Some ''m'', response = JUndefined\<rparr>\<rparr> False
     = Inl (Error ''Error processing request: m'')
   \<and> unwrapOrThrowError \<lparr>data = \<lparr>isOK = False, message = Some ''m'', response = JUndefined\<rparr>\<rparr> False
     \<noteq> Inl (Error ''m'')"
  by (simp add: unwrapOrThrowError_def)

text \<open>
  C3, amended. With \<open>isOK\<close> true, \<^verbatim>\<open>unwrapOrThrowError\<close> returns the response payload of
  the envelope when the payload is not ignored and is present (truthy), and an empty
  object when the caller ignores the payload. With \<open>isOK\<close> false it raises an error
  whose message is \<open>Error processing request: \<close> followed by the message field of the
  envelope (by \<open>undefined\<close> when there is none). With \<open>isOK\<close> true, the payload not
  ignored and the response missing (\<open>undefined\<close>, which is falsy, as is any other falsy
  payload) the assertion fails and the call raises instead of returning.
\<close>

theorem unwrap_cases:
  "(isOK (data r) \<and> \<not> ignore \<and> truthy (response (data r)) \<longrightarrow>
      unwrapOrThrowError r ignore = Inr (response (data r)))
   \<and> (isOK (data r) \<and> ignore \<longrightarrow> unwrapOrThrowError r ignore = Inr (JObj []))
   \<and> (\<not> isOK (data r) \<longrightarrow>
      unwrapOrThrowError r ignore =
        Inl (Error (''Error processing request: '' @
          (case message (data r) of None \<Rightarrow> ''undefined'' | Some m \<Rightarrow> m))))
   \<and> (isOK (data r) \<and> \<not> ignore \<and> \<not> truthy (response (data r)) \<longrightarrow>
      unwrapOrThrowError r ignore = Inl AssertionError)
   \<and> \<not> truthy JUndefined"
  by (cases "message (data r)") (simp_all add: unwrapOrThrowError_def)

theorem unwrap_cases_witness:
  "unwrapOrThrowError \<lparr>data = \<lparr>isOK = True, message = None, response = JStr ''X''\<rparr>\<rparr> False
     = Inr (JStr ''X'')
   \<and> unwrapOrThrowError \<lparr>data = \<lparr>isOK = True, message = None, response = JStr ''X''\<rparr>\<rparr> True
     = Inr (JObj [])
   \<and> unwrapOrThrowError \<lparr>data = \<lparr>isOK = False, message = Some ''m'', response = JUndefined\<rparr>\<rparr> False
     = Inl (Error ''Error processing request: m'')
   \<and> unwrapOrThrowError \<lparr>data = \<lparr>isOK = True, message = None, response = JUndefined\<rparr>\<rparr> False
     = Inl AssertionError"
  using unwrap_cases [of "\<lparr>data = \<lparr>isOK = True, message = None, response = JStr ''X''\<rparr>\<rparr>" False]
    unwrap_cases [of "\<lparr>data = \<lparr>isOK = True, message = None, response = JStr ''X''\<rparr>\<rparr>" True]
    unwrap_cases [of "\<lparr>data = \<lparr>isOK = False, message = Some ''m'', response = JUndefined\<rparr>\<rparr>" False]
    unwrap_cases [of "\<lparr>data = \<lparr>isOK = True, message = None, response = JUndefined\<rparr>\<rparr>" False]
  by simp

section \<open>The operations that only acknowledge\<close>

text \<open>
  C9. \<^verbatim>\<open>createGame\<close>, \<^verbatim>\<open>startGame\<close>, \<^verbatim>\<open>addPlayerToGameTeam\<close>,
  \<^verbatim>\<open>removePlayerFromGameTeam\<close> and \<^verbatim>\<open>inputGameAction\<close> unwrap the envelope without
  \<open>ignoreResponse\<close>. So when the server answers any of them with a success envelope
  that has no response field, whatever the address and the request, the operation
  raises the assertion error instead of succeeding.
\<close>

theorem acknowledgment_without_payload_raises:
  "isOK (data r) \<Longrightarrow> response (data r) = JUndefined \<Longrightarrow>
   createGame (\<lambda>url request. Inr r) cg = Inl AssertionError
   \<and> startGame (\<lambda>url request. Inr r) sg = Inl AssertionError
   \<and> addPlayerToGameTeam (\<lambda>url request. Inr r) jt = Inl AssertionError
   \<and> removePlayerFromGameTeam (\<lambda>url request. Inr r) lt = Inl AssertionError
   \<and> inputGameAction (\<lambda>url request. Inr r) ug = Inl AssertionError"
  by (simp add: createGame_def startGame_def addPlayerToGameTeam_def
      removePlayerFromGameTeam_def inputGameAction_def await_def unwrapOrThrowError_def)

theorem acknowledgment_without_payload_raises_witness:
  "createGame (\<lambda>url request. Inr \<lparr>data = \<lparr>isOK = True, message = None, response = JUndefined\<rparr>\<rparr>)
     \<lparr>CreateGameRequest.coveyTownID = ''t'', CreateGameRequest.sessionToken = ''s'',
       CreateGameRequest.conversationAreaLabel = ''a'', gameID = ()\<rparr>
     = Inl AssertionError
   \<and> startGame (\<lambda>url request. Inr \<lparr>data = \<lparr>isOK = True, message = None, response = JUndefined\<rparr>\<rparr>)
     \<lparr>coveyTownID = ''t'', sessionToken = ''s'', conversationAreaLabel = ''a''\<rparr>
     = Inl AssertionError
   \<and> addPlayerToGameTeam
     (\<lambda>url request. Inr \<lparr>data = \<lparr>isOK = True, message = None, response = JUndefined\<rparr>\<rparr>)
     \<lparr>GameJoinTeamRequest.coveyTownID = ''t'', GameJoinTeamRequest.sessionToken = ''s'',
       GameJoinTeamRequest.playerID = ''p'', teamNumber = 1,
       GameJoinTeamRequest.conversationAreaLabel = ''a''\<rparr>
     = Inl AssertionError
   \<and> removePlayerFromGameTeam
     (\<lambda>url request. Inr \<lparr>data = \<lparr>isOK = True, message = None, response = JUndefined\<rparr>\<rparr>)
     \<lparr>GameLeaveTeamRequest.coveyTownID = ''t'', GameLeaveTeamRequest.sessionToken = ''s'',
       GameLeaveTeamRequest.playerID = ''p'', GameLeaveTeamRequest.conversationAreaLabel = ''a''\<rparr>
     = Inl AssertionError
   \<and> inputGameAction
     (\<lambda>url request. Inr \<lparr>data = \<lparr>isOK = True, message = None, response = JUndefined\<rparr>\<rparr>)
     \<lparr>UpdateGameRequest.coveyTownID = ''t'', UpdateGameRequest.sessionToken = ''s'',
       UpdateGameRequest.conversationAreaLabel = ''a'', gameAction = ''CRANE''\<rparr>
     = Inl AssertionError"
  using acknowledgment_without_payload_raises
    [of "\<lparr>data = \<lparr>isOK = True, message = None, response = JUndefined\<rparr>\<rparr>"
        "\<lparr>CreateGameRequest.coveyTownID = ''t'', CreateGameRequest.sessionToken = ''s'',
          CreateGameRequest.conversationAreaLabel = ''a'', gameID = ()\<rparr>"
        "\<lparr>coveyTownID = ''t'', sessionToken = ''s'', conversationAreaLabel = ''a''\<rparr>"
        "\<lparr>GameJoinTeamRequest.coveyTownID = ''t'', GameJoinTeamRequest.sessionToken = ''s'',
          GameJoinTeamRequest.playerID = ''p'', teamNumber = 1,
          GameJoinTeamRequest.conversationAreaLabel = ''a''\<rparr>"
        "\<lparr>GameLeaveTeamRequest.coveyTownID = ''t'', GameLeaveTeamRequest.sessionToken = ''s'',
          GameLeaveTeamRequest.playerID = ''p'',
          GameLeaveTeamRequest.conversationAreaLabel = ''a''\<rparr>"
        "\<lparr>UpdateGameRequest.coveyTownID = ''t'', UpdateGameRequest.sessionToken = ''s'',
          UpdateGameRequest.conversationAreaLabel = ''a'', gameAction = ''CRANE''\<rparr>"]
  by simp

section \<open>Fetches in flight\<close>

text \<open>
  C7, as the specification states it, allows at most one state fetch in flight. The
  body of \<^verbatim>\<open>GameBoard\<close> calls \<open>getGameState\<close> on every call with an active game and
  keeps no record of a fetch under way: mounted with an active game and rendered once
  more before the first answer, the component has two fetches in flight.
\<close>

theorem two_fetches_in_flight:
  "map_option in_flight (run (mount ''bob'' False True) [Render False True]) = Some 2"
  by (simp add: mount_def GameBoard_def in_flight_def)

text \<open>
  C7, amended. Under any sequence of activations, every activation of the render loop
  with an active game issues one more state fetch, whatever the number in flight;
  nothing coalesces or ignores an activation that arrives during a fetch. This holds
  of a render from outside, where \<open>n\<close> in a row leave \<open>n\<close> more fetches in flight, of the
  render that a fetch's own completion triggers, after which as many fetches are in
  flight as before the completion, and of the render that typing triggers.
\<close>

theorem every_activation_fetches:
  "(\<forall>go game. \<exists>s'. step s (Render go game) = Some s'
        \<and> in_flight s' = in_flight s + (if game then 1 else 0))
   \<and> (\<forall>go n. \<exists>s'. run s (replicate n (Render go True)) = Some s'
        \<and> in_flight s' = in_flight s + n)
   \<and> (\<forall>i gs. i < in_flight s \<and> area_game s \<longrightarrow>
        (\<exists>s'. step s (Resolve i gs) = Some s' \<and> in_flight s' = in_flight s))
   \<and> (\<forall>v. v \<noteq> input s \<and> area_game s \<longrightarrow>
        (\<exists>s'. step s (Change v) = Some s' \<and> in_flight s' = in_flight s + 1))"
proof (intro conjI allI impI)
  fix go game
  show "\<exists>s'. step s (Render go game) = Some s' \<and> in_flight s' = in_flight s + (if game then 1 else 0)"
    by (simp add: GameBoard_def in_flight_def)
next
  fix go n
  show "\<exists>s'. run s (replicate n (Render go True)) = Some s' \<and> in_flight s' = in_flight s + n"
    by (rule run_renders)
next
  fix i gs assume a: "i < in_flight s \<and> area_game s"
  then have "Suc (length (remove_at i (pending s))) = length (pending s)"
    by (simp add: in_flight_def length_remove_at)
  with a show "\<exists>s'. step s (Resolve i gs) = Some s' \<and> in_flight s' = in_flight s"
    by (simp add: in_flight_rerender) (simp add: in_flight_def)
next
  fix v assume "v \<noteq> input s \<and> area_game s"
  then show "\<exists>s'. step s (Change v) = Some s' \<and> in_flight s' = in_flight s + 1"
    by (simp add: in_flight_rerender) (simp add: in_flight_def)
qed

theorem every_activation_fetches_witness:
  "map_option in_flight (step one_pending (Render False True)) = Some 2
   \<and> map_option in_flight (run (mount ''bob'' False True) (replicate 3 (Render False True)))
       = Some 4
   \<and> map_option in_flight (step one_pending (Resolve 0 scenario)) = Some 1
   \<and> map_option in_flight (step one_pending (Change ''C'')) = Some 2"
proof -
  note p = every_activation_fetches [of one_pending]
  note m = every_activation_fetches [of "mount ''bob'' False True"]
  have a: "in_flight one_pending = 1" "in_flight (mount ''bob'' False True) = 1"
    "area_game one_pending" "''C'' \<noteq> input one_pending"
    by (simp_all add: in_flight_def one_pending_def mount_def GameBoard_def)
  from p have "\<exists>s'. step one_pending (Render False True) = Some s'
      \<and> in_flight s' = in_flight one_pending + (if True then 1 else 0)"
    by blast
  with a have "map_option in_flight (step one_pending (Render False True)) = Some 2"
    by auto
  moreover from m have "\<exists>s'. run (mount ''bob'' False True) (replicate 3 (Render False True)) = Some s'
      \<and> in_flight s' = in_flight (mount ''bob'' False True) + 3"
    by blast
  with a have "map_option in_flight (run (mount ''bob'' False True) (replicate 3 (Render False True)))
      = Some 4"
    by auto
  moreover from p a have "\<exists>s'. step one_pending (Resolve 0 scenario) = Some s'
      \<and> in_flight s' = in_flight one_pending"
    by simp
  with a have "map_option in_flight (step one_pending (Resolve 0 scenario)) = Some 1"
    by auto
  moreover from p a have "\<exists>s'. step one_pending (Change ''C'') = Some s'
      \<and> in_flight s' = in_flight one_pending + 1"
    by blast
  with a have "map_option in_flight (step one_pending (Change ''C'')) = Some 2"
    by auto
  ultimately show ?thesis by simp
qed

section \<open>The boards are a function of the snapshot\<close>

text \<open>
  C8. Take two states of the component, with whatever is displayed, typed and pending
  in each, and let a pending fetch of each complete with the same snapshot. If the
  player is the same and the two fetches were issued under the same \<open>gameover\<close>
  property, both completions succeed and commit the same two boards, which are
  \<open>redBoard\<close> and \<open>blueBoard\<close> of the player, the property and the snapshot and of
  nothing else. If the text typed was the same too, the whole views are equal.
\<close>

theorem boards_determined_by_snapshot:
  assumes "i < length (pending s)" and "j < length (pending s')"
    and "GameBoard_state.playerID s = GameBoard_state.playerID s'"
    and "c_gameover (pending s ! i) = c_gameover (pending s' ! j)"
  shows
    "\<exists>t t'. step s (Resolve i gs) = Some t \<and> step s' (Resolve j gs) = Some t'
       \<and> children (element t) ! 1 = children (element t') ! 1
       \<and> children (element t) ! 1 =
           HStack ''24px''
             [VStack None None
                [Text ''sm'' ''Red Board'',
                 redBoard (GameBoard_state.playerID s) (c_gameover (pending s ! i)) gs],
              VStack None None
                [Text ''sm'' ''Blue Board'',
                 blueBoard (GameBoard_state.playerID s) (c_gameover (pending s ! i)) gs]]
       \<and> (c_input (pending s ! i) = c_input (pending s' ! j) \<longrightarrow> element t = element t')"
  using assms by (simp add: element_rerender constructBoards_def)

theorem boards_determined_by_snapshot_witness:
  "\<exists>t t'. step one_pending (Resolve 0 scenario) = Some t
       \<and> step two_pending (Resolve 1 scenario) = Some t'
       \<and> children (element t) ! 1 = children (element t') ! 1
       \<and> children (element t) ! 1 =
           HStack ''24px''
             [VStack None None [Text ''sm'' ''Red Board'', redBoard ''bob'' False scenario],
              VStack None None [Text ''sm'' ''Blue Board'', blueBoard ''bob'' False scenario]]"
  using boards_determined_by_snapshot [of 0 one_pending 1 two_pending scenario]
  by (auto simp add: one_pending_def two_pending_def element_rerender)

end
